theory Spec2Isabelle
  imports Complex_Main
begin

section \<open>Values exchanged with the collaborators\<close>

text \<open>
  The program is one class, \<^verbatim>\<open>ChatPDFProcessor\<close> in \<^verbatim>\<open>main.py\<close>. Everything it
  calls outside the class (the PDF loader, the text splitter, the metadata filter, the
  Chroma store, the retriever, the language model and the HTTP client) is a field of
  an environment record below; the class's own control flow is embedded as written.
\<close>

text \<open>
  Python values that cross the HTTP boundary. \<open>JObj\<close> is the parsed dictionary in its
  own order (a Python dict has no duplicate keys); \<^verbatim>\<open>d.get(key, default)\<close> is
  \<open>dict_get\<close>.
\<close>

datatype json =
    JNull
  | JBool bool
  | JNum real
  | JStr string
  | JArr "json list"
  | JObj "(string \<times> json) list"

text \<open>Every exception the class raises itself or lets through from a collaborator.\<close>

datatype exn =
    ValueError string
  | JSONDecodeError
  | AttributeError
  | CollaboratorError string

record document =
  page_content :: string
  metadata :: "(string \<times> json) list"

text \<open>
  \<^verbatim>\<open>requests.Response\<close>: the status code, and what \<^verbatim>\<open>response.json()\<close> finds in the
  body (\<open>None\<close> when the body is not valid JSON, where \<^verbatim>\<open>json()\<close> raises).
\<close>

record response =
  status_code :: int
  body_json :: "json option"

text \<open>\<^verbatim>\<open>RecursiveCharacterTextSplitter(chunk_size=1024, chunk_overlap=100)\<close>, as configured.\<close>

record text_splitter =
  chunk_size :: nat
  chunk_overlap :: nat

text \<open>
  What \<^verbatim>\<open>vector_store.as_retriever(search_type=..., search_kwargs={...})\<close> is given:
  the store it is bound to, the search type and the two search arguments.
\<close>

record 'vs retriever =
  vectorstore :: 'vs
  search_type :: string
  search_k :: int
  search_score_threshold :: real

definition as_retriever :: "'vs \<Rightarrow> string \<Rightarrow> int \<Rightarrow> real \<Rightarrow> 'vs retriever" where
  "as_retriever vs st k score_threshold =
     \<lparr>vectorstore = vs, search_type = st, search_k = k,
      search_score_threshold = score_threshold\<rparr>"

text \<open>
  The collaborators, as they answer during one call of a method. Each call may raise;
  \<open>Inl\<close> is the exception. \<open>Chroma_bool\<close> is the truth value Python gives a store object
  in \<^verbatim>\<open>if not self.vector_store\<close>, which the store's class decides.
\<close>

record 'vs env =
  PyPDFLoader_load :: "string \<Rightarrow> exn + document list"
  split_documents :: "text_splitter \<Rightarrow> document list \<Rightarrow> exn + document list"
  filter_complex_metadata :: "document list \<Rightarrow> exn + document list"
  Chroma_from_documents :: "document list \<Rightarrow> string \<Rightarrow> string \<Rightarrow> exn + 'vs"
  Chroma_bool :: "'vs \<Rightarrow> bool"
  retriever_invoke :: "'vs retriever \<Rightarrow> string \<Rightarrow> exn + document list"
  llm_invoke :: "string \<Rightarrow> string \<Rightarrow> exn + string"
  requests_post :: "string \<Rightarrow> json \<Rightarrow> (string \<times> string) list \<Rightarrow> exn + response"

section \<open>The processor\<close>

record 'vs processor =
  llm_model :: string
  embedding_model :: string
  splitter :: text_splitter
  prompt_template :: string
  vector_store :: "'vs option"
  retriever :: "'vs retriever option"
  tavily_api_key :: "string option"

text \<open>The template literal of \<^verbatim>\<open>__init__\<close>, with the indentation of the source.\<close>

definition indent :: string where
  "indent = replicate 12 (CHR '' '')"

definition PROMPT_TEMPLATE :: string where
  "PROMPT_TEMPLATE =
     ''\<newline>'' @ indent
     @ ''You are a helpful assistant answering questions based on the uploaded document.\<newline>''
     @ indent @ ''Context:\<newline>''
     @ indent @ ''{context}\<newline>''
     @ indent @ ''\<newline>''
     @ indent @ ''Question:\<newline>''
     @ indent @ ''{question}\<newline>''
     @ indent @ ''\<newline>''
     @ indent @ ''Provide a clear and helpful explanation.\<newline>''
     @ indent"

definition ChatPDFProcessor_init :: "string \<Rightarrow> string \<Rightarrow> string option \<Rightarrow> 'vs processor" where
  "ChatPDFProcessor_init llm emb key =
     \<lparr>llm_model = llm, embedding_model = emb,
      splitter = \<lparr>chunk_size = 1024, chunk_overlap = 100\<rparr>,
      prompt_template = PROMPT_TEMPLATE,
      vector_store = None, retriever = None, tavily_api_key = key\<rparr>"

subsection \<open>\<^verbatim>\<open>query_tavily\<close>\<close>

fun dict_get :: "(string \<times> json) list \<Rightarrow> string \<Rightarrow> json \<Rightarrow> json" where
  "dict_get [] key dflt = dflt"
| "dict_get ((k, v) # kvs) key dflt = (if k = key then v else dict_get kvs key dflt)"

text \<open>\<^verbatim>\<open>f"Bearer {self.tavily_api_key}"\<close>: an unset key formats as \<^verbatim>\<open>None\<close>.\<close>

definition bearer :: "string option \<Rightarrow> string" where
  "bearer key = ''Bearer '' @ (case key of None \<Rightarrow> ''None'' | Some k \<Rightarrow> k)"

text \<open>\<^verbatim>\<open>response.json().get("answer", "No answer found in Tavily.")\<close>\<close>

definition response_answer :: "response \<Rightarrow> exn + json" where
  "response_answer r =
     (case body_json r of
        None \<Rightarrow> Inl JSONDecodeError
      | Some (JObj kvs) \<Rightarrow> Inr (dict_get kvs ''answer'' (JStr ''No answer found in Tavily.''))
      | Some _ \<Rightarrow> Inl AttributeError)"

definition query_tavily :: "'vs env \<Rightarrow> 'vs processor \<Rightarrow> string \<Rightarrow> exn + json" where
  "query_tavily e s query =
     (case requests_post e ''https://api.tavily.com/v1/query'' (JObj [(''query'', JStr query)])
             [(''Authorization'', bearer (tavily_api_key s))] of
        Inl err \<Rightarrow> Inl err
      | Inr r \<Rightarrow>
          if status_code r = 200 then response_answer r
          else Inr (JStr ''Tavily API error. Please try again later.''))"

subsection \<open>\<^verbatim>\<open>clear_data\<close>\<close>

definition clear_data :: "'vs processor \<Rightarrow> 'vs processor" where
  "clear_data s = s\<lparr>vector_store := None, retriever := None\<rparr>"

subsection \<open>\<^verbatim>\<open>ingest_pdf\<close>\<close>

text \<open>
  Load, split, filter, build the store, then assign \<^verbatim>\<open>self.vector_store\<close>. An
  exception of any step leaves the method before the assignment.
\<close>

definition ingest_pdf :: "'vs env \<Rightarrow> 'vs processor \<Rightarrow> string \<Rightarrow> (exn + unit) \<times> 'vs processor" where
  "ingest_pdf e s pdf_file_path =
     (case PyPDFLoader_load e pdf_file_path of
        Inl err \<Rightarrow> (Inl err, s)
      | Inr documents \<Rightarrow>
     (case split_documents e (splitter s) documents of
        Inl err \<Rightarrow> (Inl err, s)
      | Inr chunks \<Rightarrow>
     (case filter_complex_metadata e chunks of
        Inl err \<Rightarrow> (Inl err, s)
      | Inr chunks' \<Rightarrow>
     (case Chroma_from_documents e chunks' (embedding_model s) ''chroma_db'' of
        Inl err \<Rightarrow> (Inl err, s)
      | Inr vs \<Rightarrow> (Inr (), s\<lparr>vector_store := Some vs\<rparr>)))))"

subsection \<open>\<^verbatim>\<open>query_document\<close>\<close>

text \<open>\<^verbatim>\<open>sep.join(parts)\<close>\<close>

fun join :: "string \<Rightarrow> string list \<Rightarrow> string" where
  "join sep [] = []"
| "join sep [x] = x"
| "join sep (x # y # ys) = x @ sep @ join sep (y # ys)"

text \<open>
  Formatting a template with named placeholders \<^verbatim>\<open>{name}\<close>. The second argument is
  the placeholder name read so far (\<open>None\<close> outside braces). An unknown name and an
  unclosed brace give \<open>None\<close>, where the formatter raises. Doubled braces and format
  specifications, which the template of \<^verbatim>\<open>__init__\<close> does not use, are not covered.
\<close>

fun format_from :: "(string \<times> string) list \<Rightarrow> string option \<Rightarrow> string \<Rightarrow> string option" where
  "format_from vars None [] = Some []"
| "format_from vars (Some n) [] = None"
| "format_from vars None (c # cs) =
     (if c = CHR ''{'' then format_from vars (Some []) cs
      else map_option ((#) c) (format_from vars None cs))"
| "format_from vars (Some n) (c # cs) =
     (if c = CHR ''}'' then
        (case map_of vars n of
           None \<Rightarrow> None
         | Some v \<Rightarrow> map_option ((@) v) (format_from vars None cs))
      else format_from vars (Some (n @ [c])) cs)"

definition format_prompt :: "string \<Rightarrow> string \<Rightarrow> string \<Rightarrow> string option" where
  "format_prompt template context question =
     format_from [(''context'', context), (''question'', question)] None template"

text \<open>The template literal with the two placeholders replaced.\<close>

definition rendered_prompt :: "string \<Rightarrow> string \<Rightarrow> string" where
  "rendered_prompt context question =
     ''\<newline>'' @ indent
     @ ''You are a helpful assistant answering questions based on the uploaded document.\<newline>''
     @ indent @ ''Context:\<newline>''
     @ indent @ context @ ''\<newline>''
     @ indent @ ''\<newline>''
     @ indent @ ''Question:\<newline>''
     @ indent @ question @ ''\<newline>''
     @ indent @ ''\<newline>''
     @ indent @ ''Provide a clear and helpful explanation.\<newline>''
     @ indent"

text \<open>
  Lines 104 to 116: the context is joined from the retrieved documents, the chain
  formats the prompt, calls the model and hands back the text of its reply.
\<close>

definition generate :: "'vs env \<Rightarrow> 'vs processor \<Rightarrow> string \<Rightarrow> document list \<Rightarrow> exn + json" where
  "generate e s query retrieved_docs =
     (case format_prompt (prompt_template s)
             (join ''\<newline>\<newline>'' (map page_content retrieved_docs)) query of
        None \<Rightarrow> Inl (CollaboratorError ''KeyError'')
      | Some prompt \<Rightarrow>
          (case llm_invoke e (llm_model s) prompt of
             Inl err \<Rightarrow> Inl err
           | Inr text \<Rightarrow> Inr (JStr text)))"

text \<open>
  The retriever is built only when \<^verbatim>\<open>self.retriever\<close> is unset; otherwise the cached
  one is invoked.
\<close>

definition query_document ::
  "'vs env \<Rightarrow> 'vs processor \<Rightarrow> string \<Rightarrow> int \<Rightarrow> real \<Rightarrow> (exn + json) \<times> 'vs processor" where
  "query_document e s query k score_threshold =
     (case vector_store s of
        None \<Rightarrow> (Inl (ValueError ''No document ingested. Please ingest a document first.''), s)
      | Some vs \<Rightarrow>
          if \<not> Chroma_bool e vs
          then (Inl (ValueError ''No document ingested. Please ingest a document first.''), s)
          else
          (let r = (case retriever s of
                      None \<Rightarrow> as_retriever vs ''similarity_score_threshold'' k score_threshold
                    | Some r0 \<Rightarrow> r0);
               s' = s\<lparr>retriever := Some r\<rparr>
           in case retriever_invoke e r query of
                Inl err \<Rightarrow> (Inl err, s')
              | Inr retrieved_docs \<Rightarrow>
                  if retrieved_docs = [] then (query_tavily e s' query, s')
                  else (generate e s' query retrieved_docs, s')))"

section \<open>Sessions\<close>

text \<open>
  A session is a sequence of calls on one processor. A call that raises leaves the
  processor as the method left it, and the session goes on with the next call.
\<close>

datatype op = Ingest string | Query string int real | Clear

fun step :: "'vs env \<Rightarrow> op \<Rightarrow> 'vs processor \<Rightarrow> 'vs processor" where
  "step e (Ingest p) s = snd (ingest_pdf e s p)"
| "step e (Query q k t) s = snd (query_document e s q k t)"
| "step e Clear s = clear_data s"

fun run :: "'vs env \<Rightarrow> op list \<Rightarrow> 'vs processor \<Rightarrow> 'vs processor" where
  "run e [] s = s"
| "run e (x # xs) s = run e xs (step e x s)"

text \<open>No \<^verbatim>\<open>ingest_pdf\<close> call of the session returns normally.\<close>

fun no_ingest_succeeds :: "'vs env \<Rightarrow> op list \<Rightarrow> 'vs processor \<Rightarrow> bool" where
  "no_ingest_succeeds e [] s = True"
| "no_ingest_succeeds e (Ingest p # xs) s =
     (isl (fst (ingest_pdf e s p)) \<and> no_ingest_succeeds e xs (step e (Ingest p) s))"
| "no_ingest_succeeds e (x # xs) s = no_ingest_succeeds e xs (step e x s)"

text \<open>
  A session in a world that the calls change (the store on disk grows with every
  ingestion): \<open>E w\<close> is the environment in the world \<open>w\<close>, and \<open>nxt w x\<close> is the world
  after the call \<open>x\<close> made in \<open>w\<close>.
\<close>

fun run_in ::
  "('w \<Rightarrow> 'vs env) \<Rightarrow> ('w \<Rightarrow> op \<Rightarrow> 'w) \<Rightarrow> 'w \<Rightarrow> op list \<Rightarrow> 'vs processor \<Rightarrow> 'vs processor \<times> 'w" where
  "run_in E nxt w [] s = (s, w)"
| "run_in E nxt w (x # xs) s = run_in E nxt (nxt w x) xs (step (E w) x s)"

section \<open>Test doubles\<close>

text \<open>
  A concrete environment for evaluating the class in sessions with one ingestion into
  an empty store directory: two readable files, a store that holds the chunks it was
  built from, a retriever that returns the first \<open>k\<close> chunks of its store when the
  threshold is at most one half, a model that echoes its prompt, and an HTTP endpoint
  that answers with a given response.
\<close>

definition page :: "string \<Rightarrow> document" where
  "page txt = \<lparr>page_content = txt, metadata = []\<rparr>"

definition test_env :: "response \<Rightarrow> (document list) env" where
  "test_env resp =
     \<lparr>PyPDFLoader_load = (\<lambda>p.
         if p = ''a.pdf'' then Inr [page ''alpha'', page ''aleph'']
         else if p = ''c.pdf'' then Inr [page ''gamma'', page ''gimel'', page ''ghayn'']
         else Inl (CollaboratorError ''FileNotFoundError'')),
      split_documents = (\<lambda>_ ds. Inr ds),
      filter_complex_metadata = Inr,
      Chroma_from_documents = (\<lambda>chunks _ _. Inr chunks),
      Chroma_bool = (\<lambda>vs. vs \<noteq> []),
      retriever_invoke = (\<lambda>r q.
         Inr (if search_score_threshold r \<le> 1 / 2
              then take (nat (search_k r)) (vectorstore r) else [])),
      llm_invoke = (\<lambda>_ prompt. Inr prompt),
      requests_post = (\<lambda>_ _ _. Inr resp)\<rparr>"

definition http_500 :: response where
  "http_500 = \<lparr>status_code = 500, body_json = None\<rparr>"

definition test_processor :: "(document list) processor" where
  "test_processor = ChatPDFProcessor_init ''deepseek-coder:latest'' ''mxbai-embed-large'' None"

text \<open>
  A double of the persistent store, for sessions that ingest more than once. The world
  is the content of the one collection in the directory \<^verbatim>\<open>chroma_db\<close>. A store handle
  is the directory it opens, so all handles of a session open the same collection; an
  ingestion appends its chunks to the collection; a retriever reads the collection as
  it is when it is invoked, and returns its first \<open>k\<close> chunks when the threshold is at
  most one half.
\<close>

definition persistent_env :: "document list \<Rightarrow> string env" where
  "persistent_env coll =
     \<lparr>PyPDFLoader_load = (\<lambda>p.
         if p = ''a.pdf'' then Inr [page ''alpha'', page ''aleph'']
         else if p = ''b.pdf'' then Inr [page ''beta'']
         else Inl (CollaboratorError ''FileNotFoundError'')),
      split_documents = (\<lambda>_ ds. Inr ds),
      filter_complex_metadata = Inr,
      Chroma_from_documents = (\<lambda>_ _ dir. Inr dir),
      Chroma_bool = (\<lambda>_. coll \<noteq> []),
      retriever_invoke = (\<lambda>r q.
         Inr (if search_score_threshold r \<le> 1 / 2
              then take (nat (search_k r)) coll else [])),
      llm_invoke = (\<lambda>_ prompt. Inr prompt),
      requests_post = (\<lambda>_ _ _. Inr http_500)\<rparr>"

fun persistent_next :: "document list \<Rightarrow> op \<Rightarrow> document list" where
  "persistent_next coll (Ingest p) =
     (case PyPDFLoader_load (persistent_env coll) p of
        Inl err \<Rightarrow> coll
      | Inr chunks \<Rightarrow> coll @ chunks)"
| "persistent_next coll (Query q k t) = coll"
| "persistent_next coll Clear = coll"

definition persistent_processor :: "string processor" where
  "persistent_processor =
     ChatPDFProcessor_init ''deepseek-coder:latest'' ''mxbai-embed-large'' None"

section \<open>Auxiliary facts\<close>

lemma format_prompt_template:
  "format_prompt PROMPT_TEMPLATE c q = Some (rendered_prompt c q)"
  by (simp add: format_prompt_def PROMPT_TEMPLATE_def rendered_prompt_def indent_def
      eval_nat_numeral)

lemma join_Cons: "join sep (x # xs) = x @ concat (map ((@) sep) xs)"
  by (induction xs arbitrary: x) simp_all

lemma dict_get_map_of:
  "dict_get kvs key dflt = (case map_of kvs key of None \<Rightarrow> dflt | Some v \<Rightarrow> v)"
  by (induction kvs) auto

lemma query_tavily_retriever_update:
  "query_tavily e (s\<lparr>retriever := r\<rparr>) q = query_tavily e s q"
  by (simp add: query_tavily_def)

lemma generate_retriever_update:
  "generate e (s\<lparr>retriever := r\<rparr>) q docs = generate e s q docs"
  by (simp add: generate_def split: option.splits)

lemma ingest_pdf_failure_keeps_state:
  "isl (fst (ingest_pdf e s p)) \<Longrightarrow> snd (ingest_pdf e s p) = s"
  by (simp add: ingest_pdf_def split: sum.splits)

lemma ingest_pdf_prompt_template:
  "prompt_template (snd (ingest_pdf e s p)) = prompt_template s"
  by (simp add: ingest_pdf_def split: sum.splits)

lemma query_document_vector_store:
  "vector_store (snd (query_document e s q k t)) = vector_store s"
  by (simp add: query_document_def Let_def split: option.splits sum.splits)

lemma query_document_prompt_template:
  "prompt_template (snd (query_document e s q k t)) = prompt_template s"
  by (simp add: query_document_def Let_def split: option.splits sum.splits)

lemma step_prompt_template: "prompt_template (step e x s) = prompt_template s"
  by (cases x) (simp_all add: ingest_pdf_prompt_template query_document_prompt_template
      clear_data_def)

lemma run_prompt_template: "prompt_template (run e xs s) = prompt_template s"
  by (induction xs arbitrary: s) (simp_all add: step_prompt_template)

text \<open>A session that starts without a store and in which no ingestion succeeds has no store.\<close>

lemma run_without_ingest_no_index:
  "vector_store s = None \<Longrightarrow> no_ingest_succeeds e xs s \<Longrightarrow> vector_store (run e xs s) = None"
proof (induction xs arbitrary: s)
  case Nil
  then show ?case by simp
next
  case (Cons x xs)
  show ?case
  proof (cases x)
    case (Ingest p)
    with Cons.prems have "step e x s = s"
      by (simp add: ingest_pdf_failure_keeps_state)
    with Cons Ingest show ?thesis by simp
  next
    case (Query q k t)
    with Cons show ?thesis by (simp add: query_document_vector_store)
  next
    case Clear
    with Cons show ?thesis by (simp add: clear_data_def)
  qed
qed

text \<open>The test sessions, evaluated.\<close>

lemma test_ingest_a:
  "ingest_pdf (test_env resp) test_processor ''a.pdf'' =
     (Inr (), test_processor\<lparr>vector_store := Some [page ''alpha'', page ''aleph'']\<rparr>)"
  by (simp add: ingest_pdf_def test_env_def)

lemma test_session_a:
  "run (test_env resp) [Ingest ''a.pdf'', Query ''q'' 5 (1 / 5)] test_processor =
     test_processor\<lparr>vector_store := Some [page ''alpha'', page ''aleph''],
       retriever := Some (as_retriever [page ''alpha'', page ''aleph'']
                            ''similarity_score_threshold'' 5 (1 / 5))\<rparr>"
  unfolding run.simps step.simps test_ingest_a
  by (simp add: query_document_def Let_def test_processor_def ChatPDFProcessor_init_def
      test_env_def as_retriever_def page_def)

lemma test_ingest_c:
  "ingest_pdf (test_env resp) test_processor ''c.pdf'' =
     (Inr (), test_processor\<lparr>vector_store :=
        Some [page ''gamma'', page ''gimel'', page ''ghayn'']\<rparr>)"
  by (simp add: ingest_pdf_def test_env_def)

lemma persistent_session_a:
  "run_in persistent_env persistent_next [] [Ingest ''a.pdf'', Query ''q'' 5 (1 / 5)]
     persistent_processor =
     (persistent_processor\<lparr>vector_store := Some ''chroma_db'',
        retriever := Some (as_retriever ''chroma_db'' ''similarity_score_threshold'' 5 (1 / 5))\<rparr>,
      [page ''alpha'', page ''aleph''])"
  by (simp add: query_document_def Let_def ingest_pdf_def persistent_processor_def
      ChatPDFProcessor_init_def persistent_env_def as_retriever_def page_def)

lemma persistent_session_ab:
  "run_in persistent_env persistent_next [] [Ingest ''a.pdf'', Query ''q'' 5 (1 / 5), Ingest ''b.pdf'']
     persistent_processor =
     (persistent_processor\<lparr>vector_store := Some ''chroma_db'',
        retriever := Some (as_retriever ''chroma_db'' ''similarity_score_threshold'' 5 (1 / 5))\<rparr>,
      [page ''alpha'', page ''aleph'', page ''beta''])"
  by (simp add: query_document_def Let_def ingest_pdf_def persistent_processor_def
      ChatPDFProcessor_init_def persistent_env_def as_retriever_def page_def)

section \<open>Ingestion and the cached retriever\<close>

text \<open>
  Claim C1 says that after a successful \<^verbatim>\<open>ingest_pdf\<close> a cached retriever is dropped and
  rebuilt, so that later queries search through a retriever of the new store.
  \<^verbatim>\<open>ingest_pdf\<close> assigns only \<^verbatim>\<open>self.vector_store\<close>: a retriever cached by an earlier
  query is still the processor's retriever after the ingestion, and the next query
  invokes it as it was built, on the store handle and with the search arguments of the
  earlier query, and builds none on the new handle with its own arguments. Here \<open>e\<close> is
  the environment of the ingestion and \<open>e'\<close> that of the query after it.
\<close>

theorem ingest_pdf_keeps_cached_retriever:
  assumes "retriever s = Some r"
    and "ingest_pdf e s p = (Inr (), s')"
    and "vector_store s' = Some vs'"
    and "Chroma_bool e' vs'"
  shows "retriever s' = Some r
     \<and> query_document e' s' q k t =
         ((case retriever_invoke e' r q of
             Inl err \<Rightarrow> Inl err
           | Inr docs \<Rightarrow> if docs = [] then query_tavily e' s' q else generate e' s' q docs), s')"
proof -
  from assms(2) obtain vs where "s' = s\<lparr>vector_store := Some vs\<rparr>"
    by (auto simp: ingest_pdf_def split: sum.splits)
  with assms(1) have r: "retriever s' = Some r"
    by simp
  then have "s'\<lparr>retriever := Some r\<rparr> = s'" by simp
  with r assms(3,4) show ?thesis
    by (simp add: query_document_def Let_def query_tavily_retriever_update
        generate_retriever_update split: sum.splits)
qed

text \<open>
  The session \<^verbatim>\<open>ingest_pdf("a.pdf")\<close>, \<^verbatim>\<open>query_document("q")\<close>, \<^verbatim>\<open>ingest_pdf("b.pdf")\<close> on
  the persistent store, followed by \<^verbatim>\<open>query_document("q", k=1, score_threshold=0.9)\<close>.
  The collection holds the chunks of both files. The retriever is the one of the first
  query: the last query is answered from three chunks, where a retriever rebuilt for it
  would return none.
\<close>

theorem ingest_pdf_keeps_cached_retriever_witness:
  "run_in persistent_env persistent_next [] [Ingest ''a.pdf'', Query ''q'' 5 (1 / 5), Ingest ''b.pdf'']
     persistent_processor =
     (persistent_processor\<lparr>vector_store := Some ''chroma_db'',
        retriever := Some (as_retriever ''chroma_db'' ''similarity_score_threshold'' 5 (1 / 5))\<rparr>,
      [page ''alpha'', page ''aleph'', page ''beta''])
   \<and> query_document (persistent_env [page ''alpha'', page ''aleph'', page ''beta''])
        (persistent_processor\<lparr>vector_store := Some ''chroma_db'',
           retriever := Some (as_retriever ''chroma_db'' ''similarity_score_threshold'' 5 (1 / 5))\<rparr>)
        ''q'' 1 (9 / 10)
     = (Inr (JStr (rendered_prompt ''alpha\<newline>\<newline>aleph\<newline>\<newline>beta'' ''q'')),
        persistent_processor\<lparr>vector_store := Some ''chroma_db'',
           retriever := Some (as_retriever ''chroma_db'' ''similarity_score_threshold'' 5 (1 / 5))\<rparr>)
   \<and> retriever_invoke (persistent_env [page ''alpha'', page ''aleph'', page ''beta''])
        (as_retriever ''chroma_db'' ''similarity_score_threshold'' 1 (9 / 10)) ''q'' = Inr []"
proof -
  let ?w = "[page ''alpha'', page ''aleph'']"
  let ?w' = "[page ''alpha'', page ''aleph'', page ''beta'']"
  let ?r = "as_retriever ''chroma_db'' ''similarity_score_threshold'' 5 (1 / 5)"
  let ?s = "persistent_processor\<lparr>vector_store := Some ''chroma_db'', retriever := Some ?r\<rparr>"
  have a: "retriever ?s = Some ?r" by simp
  have b: "ingest_pdf (persistent_env ?w) ?s ''b.pdf'' = (Inr (), ?s)"
    by (simp add: ingest_pdf_def persistent_env_def)
  have b': "vector_store ?s = Some ''chroma_db''" by simp
  have b'': "Chroma_bool (persistent_env ?w') ''chroma_db''"
    by (simp add: persistent_env_def)
  have c: "retriever_invoke (persistent_env ?w') ?r ''q'' = Inr ?w'"
    by (simp add: persistent_env_def as_retriever_def)
  have d: "generate (persistent_env ?w') ?s ''q'' ?w'
      = Inr (JStr (rendered_prompt ''alpha\<newline>\<newline>aleph\<newline>\<newline>beta'' ''q''))"
    by (simp add: generate_def persistent_processor_def ChatPDFProcessor_init_def
        format_prompt_template persistent_env_def page_def)
  have e: "retriever_invoke (persistent_env ?w')
      (as_retriever ''chroma_db'' ''similarity_score_threshold'' 1 (9 / 10)) ''q'' = Inr []"
    by (simp add: persistent_env_def as_retriever_def)
  from ingest_pdf_keeps_cached_retriever
         [OF a b b' b'', where q = "''q''" and k = 1 and t = "9 / 10"]
  have "query_document (persistent_env ?w') ?s ''q'' 1 (9 / 10)
       = (Inr (JStr (rendered_prompt ''alpha\<newline>\<newline>aleph\<newline>\<newline>beta'' ''q'')), ?s)"
    by (simp add: c d)
  with e show ?thesis
    unfolding persistent_session_ab by simp
qed

section \<open>Queries without a store\<close>

text \<open>
  Claim C2. In a session that starts from a new processor, or from \<^verbatim>\<open>clear_data\<close>, and
  in which no \<^verbatim>\<open>ingest_pdf\<close> call has succeeded since, \<^verbatim>\<open>query_document\<close> raises
  \<^verbatim>\<open>ValueError("No document ingested. Please ingest a document first.")\<close> and returns no
  answer; the processor is left as it was.
\<close>

theorem query_without_index_fails:
  assumes "s0 = ChatPDFProcessor_init llm emb key \<or> s0 = clear_data s1"
    and "no_ingest_succeeds e xs s0"
  shows "query_document e (run e xs s0) q k t =
     (Inl (ValueError ''No document ingested. Please ingest a document first.''), run e xs s0)"
proof -
  from assms(1) have "vector_store s0 = None"
    by (auto simp: ChatPDFProcessor_init_def clear_data_def)
  then have "vector_store (run e xs s0) = None"
    using assms(2) by (rule run_without_ingest_no_index)
  then show ?thesis by (simp add: query_document_def)
qed

theorem query_without_index_fails_witness:
  "no_ingest_succeeds (test_env http_500) [Query ''q'' 5 (1 / 5), Ingest ''missing.pdf'']
     (clear_data (snd (ingest_pdf (test_env http_500) test_processor ''a.pdf'')))
   \<and> vector_store (snd (ingest_pdf (test_env http_500) test_processor ''a.pdf'')) \<noteq> None
   \<and> fst (query_document (test_env http_500)
        (run (test_env http_500) [Query ''q'' 5 (1 / 5), Ingest ''missing.pdf'']
           (clear_data (snd (ingest_pdf (test_env http_500) test_processor ''a.pdf''))))
        ''q'' 5 (1 / 5))
     = Inl (ValueError ''No document ingested. Please ingest a document first.'')"
proof -
  let ?e = "test_env http_500"
  let ?s1 = "snd (ingest_pdf ?e test_processor ''a.pdf'')"
  let ?xs = "[Query ''q'' 5 (1 / 5), Ingest ''missing.pdf'']"
  have a: "clear_data ?s1 = ChatPDFProcessor_init llm emb key \<or> clear_data ?s1 = clear_data ?s1"
    for llm emb key by simp
  have b: "no_ingest_succeeds ?e ?xs (clear_data ?s1)"
    by (simp add: test_ingest_a clear_data_def query_document_def ingest_pdf_def test_env_def)
  have c: "vector_store ?s1 \<noteq> None" by (simp add: test_ingest_a)
  from query_without_index_fails [OF a b, where q = "''q''" and k = 5 and t = "1 / 5"] b c
  show ?thesis by simp
qed

section \<open>The fallback branch\<close>

text \<open>
  Claim C3. With a store ingested, when the retriever that the call invokes returns no
  document, \<^verbatim>\<open>query_document\<close> returns what \<^verbatim>\<open>query_tavily\<close> returns for the same
  question string, unchanged.
\<close>

theorem query_document_empty_retrieval_is_fallback:
  assumes "vector_store s = Some vs"
    and "Chroma_bool e vs"
    and "retriever_invoke e
           (case retriever s of
              None \<Rightarrow> as_retriever vs ''similarity_score_threshold'' k t
            | Some r0 \<Rightarrow> r0) q = Inr []"
  shows "fst (query_document e s q k t) = query_tavily e s q"
  using assms by (simp add: query_document_def Let_def query_tavily_retriever_update)

theorem query_document_empty_retrieval_is_fallback_witness:
  "fst (query_document (test_env http_500)
          (snd (ingest_pdf (test_env http_500) test_processor ''a.pdf'')) ''q'' 5 (9 / 10))
     = query_tavily (test_env http_500)
          (snd (ingest_pdf (test_env http_500) test_processor ''a.pdf'')) ''q''
   \<and> query_tavily (test_env http_500)
          (snd (ingest_pdf (test_env http_500) test_processor ''a.pdf'')) ''q''
     = Inr (JStr ''Tavily API error. Please try again later.'')"
proof -
  let ?e = "test_env http_500"
  let ?s = "snd (ingest_pdf ?e test_processor ''a.pdf'')"
  have a: "vector_store ?s = Some [page ''alpha'', page ''aleph'']"
    by (simp add: test_ingest_a)
  have a': "Chroma_bool ?e [page ''alpha'', page ''aleph'']"
    by (simp add: test_env_def)
  have b: "retriever_invoke ?e
           (case retriever ?s of
              None \<Rightarrow> as_retriever [page ''alpha'', page ''aleph''] ''similarity_score_threshold'' 5 (9 / 10)
            | Some r0 \<Rightarrow> r0) ''q'' = Inr []"
    unfolding test_ingest_a
    by (simp add: test_processor_def ChatPDFProcessor_init_def as_retriever_def test_env_def)
  have c: "query_tavily ?e ?s ''q'' = Inr (JStr ''Tavily API error. Please try again later.'')"
    by (simp add: query_tavily_def test_env_def http_500_def)
  from query_document_empty_retrieval_is_fallback [OF a a' b] c show ?thesis by simp
qed

section \<open>The fallback search client\<close>

text \<open>
  Claim C4 says that \<^verbatim>\<open>query_tavily\<close> turns every non-200 response and every response
  with a malformed body into a plain message. A response with status 200 whose body is
  not JSON is not turned into a message: \<^verbatim>\<open>response.json()\<close> raises and nothing
  catches it.
\<close>

theorem query_tavily_malformed_body_raises:
  "query_tavily (test_env \<lparr>status_code = 200, body_json = None\<rparr>) test_processor ''q''
     = Inl JSONDecodeError"
  by (simp add: query_tavily_def response_answer_def test_env_def)

text \<open>
  Claim C4, amended. For every response with a status other than 200, whatever its body,
  \<^verbatim>\<open>query_tavily\<close> returns the message \<^verbatim>\<open>Tavily API error. Please try again later.\<close>
  and raises nothing.
\<close>

theorem query_tavily_non_200_soft_error:
  assumes "requests_post e ''https://api.tavily.com/v1/query'' (JObj [(''query'', JStr q)])
             [(''Authorization'', bearer (tavily_api_key s))] = Inr r"
    and "status_code r \<noteq> 200"
  shows "query_tavily e s q = Inr (JStr ''Tavily API error. Please try again later.'')"
  using assms by (simp add: query_tavily_def)

theorem query_tavily_non_200_soft_error_witness:
  "status_code http_500 \<noteq> 200 \<and> body_json http_500 = None
   \<and> query_tavily (test_env http_500) test_processor ''q''
     = Inr (JStr ''Tavily API error. Please try again later.'')"
proof -
  have a: "requests_post (test_env http_500) ''https://api.tavily.com/v1/query''
      (JObj [(''query'', JStr ''q'')])
      [(''Authorization'', bearer (tavily_api_key test_processor))] = Inr http_500"
    by (simp add: test_env_def)
  have b: "status_code http_500 \<noteq> 200" by (simp add: http_500_def)
  from query_tavily_non_200_soft_error [OF a b] b show ?thesis
    by (simp add: http_500_def)
qed

text \<open>
  Claim C9 says that for every response with status 200 \<^verbatim>\<open>query_tavily\<close> returns the
  \<^verbatim>\<open>answer\<close> field of the body when it is present and the message
  \<^verbatim>\<open>No answer found in Tavily.\<close> when it is absent. A body that is JSON but not an
  object, such as \<^verbatim>\<open>null\<close>, has no \<^verbatim>\<open>answer\<close> field, and for it \<^verbatim>\<open>.get\<close> raises
  instead of returning the message.
\<close>

theorem query_tavily_ok_non_object_raises:
  "query_tavily (test_env \<lparr>status_code = 200, body_json = Some JNull\<rparr>) test_processor ''q''
     = Inl AttributeError"
  by (simp add: query_tavily_def response_answer_def test_env_def)

text \<open>
  Claim C9, amended. For every response with status 200 whose body is a JSON object,
  \<^verbatim>\<open>query_tavily\<close> returns the value of the \<^verbatim>\<open>answer\<close> field as it is, of whatever
  JSON type, when the object has one, and the message \<^verbatim>\<open>No answer found in Tavily.\<close>
  when it has none.
\<close>

theorem query_tavily_ok_answer_field:
  assumes "requests_post e ''https://api.tavily.com/v1/query'' (JObj [(''query'', JStr q)])
             [(''Authorization'', bearer (tavily_api_key s))] = Inr r"
    and "status_code r = 200"
    and "body_json r = Some (JObj kvs)"
  shows "query_tavily e s q =
     Inr (case map_of kvs ''answer'' of
            Some v \<Rightarrow> v
          | None \<Rightarrow> JStr ''No answer found in Tavily.'')"
  using assms
  by (simp add: query_tavily_def response_answer_def dict_get_map_of split: option.splits)

theorem query_tavily_ok_answer_field_witness:
  "query_tavily (test_env \<lparr>status_code = 200,
        body_json = Some (JObj [(''query'', JStr ''q''), (''answer'', JStr ''42'')])\<rparr>)
      test_processor ''q'' = Inr (JStr ''42'')
   \<and> query_tavily (test_env \<lparr>status_code = 200,
        body_json = Some (JObj [(''query'', JStr ''q'')])\<rparr>)
      test_processor ''q'' = Inr (JStr ''No answer found in Tavily.'')
   \<and> query_tavily (test_env \<lparr>status_code = 200,
        body_json = Some (JObj [(''answer'', JNum 42), (''query'', JStr ''q'')])\<rparr>)
      test_processor ''q'' = Inr (JNum 42)"
proof -
  let ?r1 = "\<lparr>status_code = 200,
        body_json = Some (JObj [(''query'', JStr ''q''), (''answer'', JStr ''42'')])\<rparr>"
  let ?r2 = "\<lparr>status_code = 200, body_json = Some (JObj [(''query'', JStr ''q'')])\<rparr>"
  let ?r3 = "\<lparr>status_code = 200,
        body_json = Some (JObj [(''answer'', JNum 42), (''query'', JStr ''q'')])\<rparr>"
  have a1: "requests_post (test_env ?r1) ''https://api.tavily.com/v1/query''
      (JObj [(''query'', JStr ''q'')])
      [(''Authorization'', bearer (tavily_api_key test_processor))] = Inr ?r1"
    by (simp add: test_env_def)
  have a2: "requests_post (test_env ?r2) ''https://api.tavily.com/v1/query''
      (JObj [(''query'', JStr ''q'')])
      [(''Authorization'', bearer (tavily_api_key test_processor))] = Inr ?r2"
    by (simp add: test_env_def)
  have a3: "requests_post (test_env ?r3) ''https://api.tavily.com/v1/query''
      (JObj [(''query'', JStr ''q'')])
      [(''Authorization'', bearer (tavily_api_key test_processor))] = Inr ?r3"
    by (simp add: test_env_def)
  have b1: "status_code ?r1 = 200" and b2: "status_code ?r2 = 200"
    and b3: "status_code ?r3 = 200" by simp_all
  have c1: "body_json ?r1 = Some (JObj [(''query'', JStr ''q''), (''answer'', JStr ''42'')])"
    and c2: "body_json ?r2 = Some (JObj [(''query'', JStr ''q'')])"
    and c3: "body_json ?r3 = Some (JObj [(''answer'', JNum 42), (''query'', JStr ''q'')])"
    by simp_all
  from query_tavily_ok_answer_field [OF a1 b1 c1] query_tavily_ok_answer_field [OF a2 b2 c2]
    query_tavily_ok_answer_field [OF a3 b3 c3]
  show ?thesis by simp
qed

section \<open>Search arguments of later queries\<close>

text \<open>
  Claim C6 says that the \<^verbatim>\<open>k\<close> and \<^verbatim>\<open>score_threshold\<close> of each call govern that call's
  retrieval. Once a retriever is cached, \<^verbatim>\<open>query_document\<close> does not read the two
  arguments: any two calls that differ only in them do the same and return the same.
\<close>

theorem query_document_cached_retriever_ignores_arguments:
  assumes "retriever s = Some r"
  shows "query_document e s q k t = query_document e s q k' t'"
  using assms by (simp add: query_document_def split: option.splits)

theorem query_document_cached_retriever_ignores_arguments_witness:
  "query_document (test_env http_500)
      (run (test_env http_500) [Ingest ''a.pdf'', Query ''q'' 5 (1 / 5)] test_processor)
      ''q'' 1 (9 / 10)
   = query_document (test_env http_500)
      (run (test_env http_500) [Ingest ''a.pdf'', Query ''q'' 5 (1 / 5)] test_processor)
      ''q'' 5 (1 / 5)
   \<and> fst (query_document (test_env http_500)
      (run (test_env http_500) [Ingest ''a.pdf'', Query ''q'' 5 (1 / 5)] test_processor)
      ''q'' 1 (9 / 10)) = Inr (JStr (rendered_prompt ''alpha\<newline>\<newline>aleph'' ''q''))
   \<and> retriever_invoke (test_env http_500)
        (as_retriever [page ''alpha'', page ''aleph''] ''similarity_score_threshold'' 1 (9 / 10))
        ''q'' = Inr []"
proof -
  let ?e = "test_env http_500"
  let ?vs = "[page ''alpha'', page ''aleph'']"
  let ?r = "as_retriever ?vs ''similarity_score_threshold'' 5 (1 / 5)"
  let ?s = "run ?e [Ingest ''a.pdf'', Query ''q'' 5 (1 / 5)] test_processor"
  have b: "retriever ?s = Some ?r"
    unfolding test_session_a by simp
  have c: "fst (query_document ?e ?s ''q'' 5 (1 / 5))
      = Inr (JStr (rendered_prompt ''alpha\<newline>\<newline>aleph'' ''q''))"
    unfolding test_session_a
    by (simp add: query_document_def Let_def generate_def test_processor_def
        ChatPDFProcessor_init_def format_prompt_template test_env_def as_retriever_def page_def)
  have d: "retriever_invoke ?e (as_retriever ?vs ''similarity_score_threshold'' 1 (9 / 10)) ''q''
      = Inr []"
    by (simp add: test_env_def as_retriever_def)
  from query_document_cached_retriever_ignores_arguments
         [OF b, where e = ?e and q = "''q''" and k = 1 and t = "9 / 10" and k' = 5 and t' = "1 / 5"]
       c d
  show ?thesis by simp
qed

section \<open>Failed ingestion\<close>

text \<open>
  Claim C7. When the loader raises, \<^verbatim>\<open>ingest_pdf\<close> raises the loader's exception and the
  processor, with its vector store handle and its retriever handle, is what it was
  before the call.
\<close>

theorem ingest_pdf_load_failure_atomic:
  assumes "PyPDFLoader_load e p = Inl err"
  shows "ingest_pdf e s p = (Inl err, s)"
  using assms by (simp add: ingest_pdf_def)

theorem ingest_pdf_load_failure_atomic_witness:
  "PyPDFLoader_load (test_env http_500) ''missing.pdf'' = Inl (CollaboratorError ''FileNotFoundError'')
   \<and> ingest_pdf (test_env http_500) (snd (ingest_pdf (test_env http_500) test_processor ''a.pdf''))
       ''missing.pdf''
     = (Inl (CollaboratorError ''FileNotFoundError''),
        test_processor\<lparr>vector_store := Some [page ''alpha'', page ''aleph'']\<rparr>)"
proof -
  have a: "PyPDFLoader_load (test_env http_500) ''missing.pdf''
      = Inl (CollaboratorError ''FileNotFoundError'')"
    by (simp add: test_env_def)
  from ingest_pdf_load_failure_atomic [OF a] a show ?thesis
    by (simp add: test_ingest_a)
qed

section \<open>The generation branch\<close>

text \<open>
  Claim C8. In any session of a processor, with a store ingested, when the retriever that
  the call invokes returns the documents \<open>d\<close>, \<open>ds\<close> (at least one), the context is the
  text of \<open>d\<close> followed, for each further document in the order returned, by a blank
  line and its text; \<^verbatim>\<open>query_document\<close> puts this context and the question into the
  prompt template, calls the language model on the rendered prompt and returns the
  model's text unchanged (or lets the model's exception through).
\<close>

theorem query_document_generates_from_context:
  assumes "s = run e xs (ChatPDFProcessor_init llm emb key)"
    and "vector_store s = Some vs"
    and "Chroma_bool e vs"
    and "retriever_invoke e
           (case retriever s of
              None \<Rightarrow> as_retriever vs ''similarity_score_threshold'' k t
            | Some r0 \<Rightarrow> r0) q = Inr (d # ds)"
  shows "fst (query_document e s q k t) =
     (case llm_invoke e (llm_model s)
             (rendered_prompt
                (page_content d @ concat (map (\<lambda>x. ''\<newline>\<newline>'' @ page_content x) ds)) q) of
        Inl err \<Rightarrow> Inl err
      | Inr text \<Rightarrow> Inr (JStr text))"
proof -
  from assms(1) have "prompt_template s = PROMPT_TEMPLATE"
    by (simp add: run_prompt_template ChatPDFProcessor_init_def)
  moreover have "join ''\<newline>\<newline>'' (map page_content (d # ds))
      = page_content d @ concat (map (\<lambda>x. ''\<newline>\<newline>'' @ page_content x) ds)"
    by (simp add: join_Cons comp_def)
  ultimately have "generate e s q (d # ds) =
     (case llm_invoke e (llm_model s)
             (rendered_prompt
                (page_content d @ concat (map (\<lambda>x. ''\<newline>\<newline>'' @ page_content x) ds)) q) of
        Inl err \<Rightarrow> Inl err
      | Inr text \<Rightarrow> Inr (JStr text))"
    by (simp add: generate_def format_prompt_template del: join.simps)
  with assms(2-4) show ?thesis
    by (simp add: query_document_def Let_def generate_retriever_update del: join.simps)
qed

theorem query_document_generates_from_context_witness:
  "fst (query_document (test_env http_500)
          (run (test_env http_500) [Ingest ''c.pdf''] test_processor) ''q'' 5 (1 / 5))
     = Inr (JStr (rendered_prompt ''gamma\<newline>\<newline>gimel\<newline>\<newline>ghayn'' ''q''))"
proof -
  let ?e = "test_env http_500"
  let ?s = "run ?e [Ingest ''c.pdf''] test_processor"
  let ?vs = "[page ''gamma'', page ''gimel'', page ''ghayn'']"
  have s: "?s = test_processor\<lparr>vector_store := Some ?vs\<rparr>"
    by (simp add: test_ingest_c)
  have a: "?s = run ?e [Ingest ''c.pdf'']
      (ChatPDFProcessor_init ''deepseek-coder:latest'' ''mxbai-embed-large'' None)"
    by (simp add: test_processor_def)
  have b: "vector_store ?s = Some ?vs"
    by (simp add: test_ingest_c)
  have b': "Chroma_bool ?e ?vs"
    by (simp add: test_env_def)
  have c: "retriever_invoke ?e
           (case retriever ?s of
              None \<Rightarrow> as_retriever ?vs ''similarity_score_threshold'' 5 (1 / 5)
            | Some r0 \<Rightarrow> r0) ''q'' = Inr (page ''gamma'' # [page ''gimel'', page ''ghayn''])"
    unfolding s
    by (simp add: test_processor_def ChatPDFProcessor_init_def as_retriever_def test_env_def)
  from query_document_generates_from_context [OF a b b' c] show ?thesis
    by (simp add: test_env_def page_def)
qed

section \<open>Session reset\<close>

text \<open>
  Claim C10. \<^verbatim>\<open>clear_data\<close> sets the vector store handle and the retriever handle to
  \<^verbatim>\<open>None\<close> and leaves the language model, the embedding model, the text splitter, the
  prompt template and the fallback API key as they were.
\<close>

theorem clear_data_frame:
  "vector_store (clear_data s) = None \<and> retriever (clear_data s) = None
   \<and> llm_model (clear_data s) = llm_model s
   \<and> embedding_model (clear_data s) = embedding_model s
   \<and> splitter (clear_data s) = splitter s
   \<and> prompt_template (clear_data s) = prompt_template s
   \<and> tavily_api_key (clear_data s) = tavily_api_key s
   \<and> processor.more (clear_data s) = processor.more s"
  by (simp add: clear_data_def)

end
